theory Spec2Isabelle
  imports Main "HOL-Library.Word"
begin

unbundle bit_operations_syntax

section \<open>Values of the account handlers\<close>

text \<open>
  The handlers of \<^verbatim>\<open>auth_handlers.go\<close> (login, register) and of the user router
  (get-detail, create, update, delete) are embedded as functions from a request and an
  environment to the ordered list of their effects.  Go byte slices are lists of 8-bit
  words, Go strings are byte strings (\<open>string\<close>), \<^verbatim>\<open>time.Time\<close> is an instant counted from
  the zero time.
\<close>

type_synonym byte = "8 word"
type_synonym bytes = "byte list"
type_synonym Time = int

text \<open>\<^verbatim>\<open>[]byte(s)\<close>: the bytes of a Go string.\<close>

definition bytes_of :: "string \<Rightarrow> bytes" where
  "bytes_of s = map (\<lambda>c. word_of_nat (of_char c)) s"

record pgtype_UUID =
  uuid_Bytes :: bytes
  uuid_Valid :: bool

record pgtype_Timestamp =
  ts_Time :: Time
  ts_Valid :: bool

text \<open>
  Modelled from the spec: the declaration of \<^verbatim>\<open>database.User\<close>, which belongs to the
  generated package \<^verbatim>\<open>internal/database\<close>.  An account has a private storage identifier,
  a public identifier, username, display name, password hash, password salt and the
  timestamps of creation, update and last login; the fields carry the names under which
  the handlers read and write them (\<^verbatim>\<open>user.PvtID\<close>, \<^verbatim>\<open>user.Password\<close>,
  \<^verbatim>\<open>user.PasswordSalt\<close>, \<^verbatim>\<open>u.UserID\<close>, ...).
\<close>

record User =
  PvtID :: int
  UserID :: pgtype_UUID
  Username :: string
  DisplayName :: string
  Password :: bytes
  PasswordSalt :: bytes
  CreatedAt :: Time
  UpdatedAt :: Time
  LastLoggedIn :: pgtype_Timestamp

text \<open>A Go \<^verbatim>\<open>error\<close> value; \<^verbatim>\<open>errors.As(err, &pgErr)\<close> succeeds on \<open>PgError\<close> only.\<close>

datatype go_error =
    PgError string string string
  | OtherError string

section \<open>Salted hasher and constant-time verifier\<close>

text \<open>
  \<^verbatim>\<open>saltyPassword\<close> calls \<^verbatim>\<open>pbkdf2.Key(password, salt, 10_000, 512, sha256.New)\<close>.
  The key derivation of \<^verbatim>\<open>golang.org/x/crypto\<close> is a parameter: a function of
  password, salt, iteration count and key length.
\<close>

type_synonym kdf = "bytes \<Rightarrow> bytes \<Rightarrow> nat \<Rightarrow> nat \<Rightarrow> bytes"

definition saltyPassword :: "kdf \<Rightarrow> bytes \<Rightarrow> bytes \<Rightarrow> bytes" where
  "saltyPassword Key password salt =
     (let iterations = 10000;
          hashed = Key password salt iterations 512
      in hashed)"

text \<open>
  \<^verbatim>\<open>subtle.ConstantTimeCompare\<close> of the Go standard library, which \<^verbatim>\<open>handleLogin\<close>
  uses as the verifier:
  \<^verbatim>\<open>
  func ConstantTimeByteEq(x, y uint8) int {
      return int((uint32(x^y) - 1) >> 31)
  }
  func ConstantTimeCompare(x, y []byte) int {
      if len(x) != len(y) { return 0 }
      var v byte
      for i := 0; i < len(x); i++ { v |= x[i] ^ y[i] }
      return ConstantTimeByteEq(v, 0)
  }
  \<close>
  The loop runs over the positions of both slices, which have one length once the first
  test has passed.
\<close>

definition ConstantTimeByteEq :: "byte \<Rightarrow> byte \<Rightarrow> int" where
  "ConstantTimeByteEq x y = uint (drop_bit 31 ((ucast (x XOR y) :: 32 word) - 1))"

fun xor_fold :: "byte \<Rightarrow> bytes \<Rightarrow> bytes \<Rightarrow> byte" where
  "xor_fold v (a # x) (b # y) = xor_fold (v OR (a XOR b)) x y"
| "xor_fold v x y = v"

definition ConstantTimeCompare :: "bytes \<Rightarrow> bytes \<Rightarrow> int" where
  "ConstantTimeCompare x y =
     (if length x \<noteq> length y then 0
      else ConstantTimeByteEq (xor_fold 0 x y) 0)"

section \<open>Input validation\<close>

text \<open>
  The handlers validate their input struct with \<^verbatim>\<open>apiCfg.Validate.Struct\<close>, driven by
  the \<^verbatim>\<open>validate:"..."\<close> tags of the struct's fields.  The tags of a field are checked
  in the order written and the first tag that fails makes the field's one error; the
  errors come in the order of the fields.  \<^verbatim>\<open>required\<close> refuses the empty string,
  \<^verbatim>\<open>min\<close> and \<^verbatim>\<open>max\<close> bound the number of runes, \<^verbatim>\<open>printascii\<close> admits the bytes
  0x20 to 0x7E only, \<^verbatim>\<open>eqfield\<close> compares with another field, and \<^verbatim>\<open>omitnil\<close> skips a
  nil pointer.
\<close>

record FieldError =
  fe_Field :: string
  fe_Tag :: string

datatype validation_error =
    InvalidValidationError
  | ValidationErrors "FieldError list"

text \<open>
  The rune count of a string that is valid UTF-8 (as every string that
  \<^verbatim>\<open>encoding/json\<close> decodes is): the bytes that are not continuation bytes.
\<close>

definition RuneCountInString :: "string \<Rightarrow> nat" where
  "RuneCountInString s =
     length (filter (\<lambda>c. (of_char c :: nat) < 128 \<or> 192 \<le> (of_char c :: nat)) s)"

definition required :: "string \<Rightarrow> bool" where
  "required s = (s \<noteq> [])"

definition min_runes :: "nat \<Rightarrow> string \<Rightarrow> bool" where
  "min_runes n s = (n \<le> RuneCountInString s)"

definition max_runes :: "nat \<Rightarrow> string \<Rightarrow> bool" where
  "max_runes n s = (RuneCountInString s \<le> n)"

definition printascii :: "string \<Rightarrow> bool" where
  "printascii s = list_all (\<lambda>c. 32 \<le> (of_char c :: nat) \<and> (of_char c :: nat) \<le> 126) s"

definition eqfield :: "string \<Rightarrow> string \<Rightarrow> bool" where
  "eqfield other s = (s = other)"

fun first_failed :: "(string \<times> bool) list \<Rightarrow> string option" where
  "first_failed [] = None"
| "first_failed ((tag, ok) # ts) = (if ok then first_failed ts else Some tag)"

definition validate_field :: "string \<Rightarrow> (string \<times> bool) list \<Rightarrow> FieldError list" where
  "validate_field name checks =
     (case first_failed checks of
        None \<Rightarrow> []
      | Some tag \<Rightarrow> [\<lparr>fe_Field = name, fe_Tag = tag\<rparr>])"

text \<open>A pointer field tagged \<^verbatim>\<open>omitnil\<close>: nil is skipped, otherwise the pointee is checked.\<close>

definition validate_omitnil ::
  "string \<Rightarrow> string option \<Rightarrow> (string \<Rightarrow> (string \<times> bool) list) \<Rightarrow> FieldError list" where
  "validate_omitnil name p checks =
     (case p of None \<Rightarrow> [] | Some s \<Rightarrow> validate_field name (checks s))"

text \<open>\<^verbatim>\<open>Validate.Struct\<close> returns nil when no field failed.\<close>

definition Struct :: "FieldError list \<Rightarrow> validation_error option" where
  "Struct errs = (if errs = [] then None else Some (ValidationErrors errs))"

section \<open>Request and response structs\<close>

record loginUserData =
  lu_Username :: string
  lu_Password :: string

record registerUserData =
  ru_Username :: string
  ru_DisplayName :: string
  ru_Password :: string
  ru_ConfirmPassword :: string

record createUserData =
  cu_Username :: string
  cu_DisplayName :: string
  cu_Password :: string

record updateUserData =
  ud_Username :: "string option"
  ud_DisplayName :: "string option"
  ud_Password :: "string option"

definition loginUserData_zero :: loginUserData where
  "loginUserData_zero = \<lparr>lu_Username = [], lu_Password = []\<rparr>"

definition registerUserData_zero :: registerUserData where
  "registerUserData_zero =
     \<lparr>ru_Username = [], ru_DisplayName = [], ru_Password = [], ru_ConfirmPassword = []\<rparr>"

definition createUserData_zero :: createUserData where
  "createUserData_zero = \<lparr>cu_Username = [], cu_DisplayName = [], cu_Password = []\<rparr>"

definition emptyData :: updateUserData where
  "emptyData = \<lparr>ud_Username = None, ud_DisplayName = None, ud_Password = None\<rparr>"

definition Struct_loginUserData :: "loginUserData \<Rightarrow> validation_error option" where
  "Struct_loginUserData lu = Struct
     (validate_field ''Username''
        [(''required'', required (lu_Username lu)),
         (''min'', min_runes 5 (lu_Username lu)),
         (''max'', max_runes 50 (lu_Username lu))] @
      validate_field ''Password''
        [(''required'', required (lu_Password lu)),
         (''printascii'', printascii (lu_Password lu)),
         (''min'', min_runes 8 (lu_Password lu))])"

definition Struct_registerUserData :: "registerUserData \<Rightarrow> validation_error option" where
  "Struct_registerUserData ru = Struct
     (validate_field ''Username''
        [(''required'', required (ru_Username ru)),
         (''min'', min_runes 5 (ru_Username ru)),
         (''max'', max_runes 50 (ru_Username ru))] @
      validate_field ''DisplayName''
        [(''required'', required (ru_DisplayName ru)),
         (''min'', min_runes 5 (ru_DisplayName ru)),
         (''max'', max_runes 150 (ru_DisplayName ru))] @
      validate_field ''Password''
        [(''required'', required (ru_Password ru)),
         (''printascii'', printascii (ru_Password ru)),
         (''min'', min_runes 8 (ru_Password ru)),
         (''eqfield'', eqfield (ru_ConfirmPassword ru) (ru_Password ru))] @
      validate_field ''ConfirmPassword''
        [(''required'', required (ru_ConfirmPassword ru))])"

definition Struct_createUserData :: "createUserData \<Rightarrow> validation_error option" where
  "Struct_createUserData cu = Struct
     (validate_field ''Username''
        [(''required'', required (cu_Username cu)),
         (''min'', min_runes 5 (cu_Username cu)),
         (''max'', max_runes 50 (cu_Username cu))] @
      validate_field ''DisplayName''
        [(''required'', required (cu_DisplayName cu)),
         (''min'', min_runes 5 (cu_DisplayName cu)),
         (''max'', max_runes 150 (cu_DisplayName cu))] @
      validate_field ''Password''
        [(''required'', required (cu_Password cu)),
         (''printascii'', printascii (cu_Password cu)),
         (''min'', min_runes 8 (cu_Password cu))])"

definition Struct_updateUserData :: "updateUserData \<Rightarrow> validation_error option" where
  "Struct_updateUserData ud = Struct
     (validate_omitnil ''Username'' (ud_Username ud)
        (\<lambda>s. [(''min'', min_runes 5 s), (''max'', max_runes 50 s)]) @
      validate_omitnil ''DisplayName'' (ud_DisplayName ud)
        (\<lambda>s. [(''min'', min_runes 5 s), (''max'', max_runes 150 s)]) @
      validate_omitnil ''Password'' (ud_Password ud)
        (\<lambda>s. [(''printascii'', printascii s), (''min'', min_runes 8 s)]))"

record loginResponse =
  lr_Token :: string
  lr_TokenType :: string
  lr_Username :: string
  lr_DisplayName :: string
  lr_LastLoggedIn :: pgtype_Timestamp

record registerResponse =
  rr_UserId :: pgtype_UUID
  rr_Username :: string
  rr_DisplayName :: string
  rr_CreatedAt :: Time

record PublicUserDetails =
  pub_UserID :: pgtype_UUID
  pub_Username :: string
  pub_DisplayName :: string
  pub_CreatedAt :: Time
  pub_UpdatedAt :: Time
  pub_LastLoggedIn :: pgtype_Timestamp

definition convertToPublicUser :: "User \<Rightarrow> PublicUserDetails" where
  "convertToPublicUser u =
     \<lparr>pub_UserID = UserID u,
      pub_Username = Username u,
      pub_DisplayName = DisplayName u,
      pub_CreatedAt = CreatedAt u,
      pub_UpdatedAt = UpdatedAt u,
      pub_LastLoggedIn = LastLoggedIn u\<rparr>"

section \<open>Store calls and effects\<close>

record CreateUserParams =
  cp_Username :: string
  cp_DisplayName :: string
  cp_Password :: bytes
  cp_PasswordSalt :: bytes
  cp_CreatedAt :: Time
  cp_UpdatedAt :: Time

record UpdateLoggedInTimeParams =
  lp_LastLoggedIn :: pgtype_Timestamp
  lp_PvtID :: int

record UpdateUserDetailsParams =
  up_Username :: string
  up_DisplayName :: string
  up_Password :: bytes
  up_UpdatedAt :: Time
  up_PvtID :: int

datatype query =
    Call_GetUserByName string
  | Call_CreateUser CreateUserParams
  | Call_UpdateLoggedInTime UpdateLoggedInTimeParams
  | Call_UpdateUserDetails UpdateUserDetailsParams
  | Call_DeleteUserDetails int

text \<open>The value a handler hands to \<^verbatim>\<open>render\<close>.\<close>

datatype payload =
    LoginResponse loginResponse
  | RegisterResponse registerResponse
  | PublicUser PublicUserDetails
  | DbUser User
  | Message string
  | StringMap "(string \<times> string) list"

datatype log_value = LogString string | LogError validation_error

text \<open>
  What a handler does, in order: a call of the store, a call of \<^verbatim>\<open>render\<close> on the
  response writer, a line of \<^verbatim>\<open>slog.Error\<close>.
\<close>

datatype event =
    Query query
  | RespondSuccess nat payload
  | RespondFailure nat payload
  | RespondValidationFailure "FieldError list"
  | SlogError string "(string \<times> log_value) list"

fun is_response :: "event \<Rightarrow> bool" where
  "is_response (Query q) = False"
| "is_response (RespondSuccess code p) = True"
| "is_response (RespondFailure code p) = True"
| "is_response (RespondValidationFailure ve) = True"
| "is_response (SlogError m kv) = False"

text \<open>The externally visible part of a run: the calls of \<^verbatim>\<open>render\<close>.\<close>

definition responses :: "event list \<Rightarrow> event list" where
  "responses tr = filter is_response tr"

fun query_of :: "event \<Rightarrow> query option" where
  "query_of (Query q) = Some q"
| "query_of e = None"

definition queries :: "event list \<Rightarrow> query list" where
  "queries tr = List.map_filter query_of tr"

text \<open>The exported fields of the Go value in a payload, by their Go names.\<close>

fun go_fields :: "payload \<Rightarrow> string list" where
  "go_fields (LoginResponse r) =
     [''Token'', ''TokenType'', ''Username'', ''DisplayName'', ''LastLoggedIn'']"
| "go_fields (RegisterResponse r) = [''UserId'', ''Username'', ''DisplayName'', ''CreatedAt'']"
| "go_fields (PublicUser p) =
     [''UserID'', ''Username'', ''DisplayName'', ''CreatedAt'', ''UpdatedAt'', ''LastLoggedIn'']"
| "go_fields (DbUser u) =
     [''PvtID'', ''UserID'', ''Username'', ''DisplayName'', ''Password'', ''PasswordSalt'',
      ''CreatedAt'', ''UpdatedAt'', ''LastLoggedIn'']"
| "go_fields (Message m) = []"
| "go_fields (StringMap kv) = []"

definition secret_fields :: "string list" where
  "secret_fields = [''Password'', ''PasswordSalt'', ''PvtID'']"

definition exposed :: "payload \<Rightarrow> string list" where
  "exposed p = filter (\<lambda>f. f \<in> set secret_fields) (go_fields p)"

fun payload_of :: "event \<Rightarrow> payload option" where
  "payload_of (RespondSuccess code p) = Some p"
| "payload_of (RespondFailure code p) = Some p"
| "payload_of e = None"

section \<open>The environment of a request\<close>

text \<open>
  What a handler reads from outside: the key derivation, the helpers of
  \<^verbatim>\<open>internal/auth\<close>, the random source, the clock (\<open>time_Now env k\<close> is the value of
  the handler's \<open>k\<close>-th call of \<^verbatim>\<open>time.Now().UTC()\<close>) and the answers of the store's
  queries (\<^verbatim>\<open>internal/database\<close>).  A handler calls each query at most once, so an answer
  per call describes every behaviour of the store, a concurrent writer included.
\<close>

record env =
  pbkdf2_Key :: kdf
  auth_SaltyPassword :: "bytes \<Rightarrow> bytes \<Rightarrow> bytes"
  auth_UserToToken :: "User \<Rightarrow> go_error + string"
  auth_TokenPrefix :: string
  rand_Read :: "nat \<Rightarrow> go_error + bytes"
  time_Now :: "nat \<Rightarrow> Time"
  GetUserByName :: "string \<Rightarrow> go_error + User"
  CreateUser :: "CreateUserParams \<Rightarrow> go_error + User"
  UpdateLoggedInTime :: "UpdateLoggedInTimeParams \<Rightarrow> go_error option"
  UpdateUserDetails :: "UpdateUserDetailsParams \<Rightarrow> go_error + User"
  DeleteUserDetails :: "int \<Rightarrow> go_error + User"

text \<open>
  The request body as \<^verbatim>\<open>json.NewDecoder(r.Body).Decode(&x)\<close> sees it.  One call of
  \<^verbatim>\<open>Decode\<close> reads the next JSON value of the body and nothing after it; the handlers
  call it once and never look at what follows.
  \<^item> \<open>EmptyBody\<close>: there is no value (no bytes, or white space only).  \<^verbatim>\<open>Decode\<close> returns
    \<^verbatim>\<open>io.EOF\<close> and stores nothing.
  \<^item> \<open>Truncated\<close>: the body ends inside its first value.  \<^verbatim>\<open>Decode\<close> returns
    \<^verbatim>\<open>io.ErrUnexpectedEOF\<close> and stores nothing.
  \<^item> \<open>BrokenJSON\<close>: the first value has a syntax error.  \<^verbatim>\<open>Decode\<close> returns a
    \<^verbatim>\<open>*json.SyntaxError\<close> and stores nothing.
  \<^item> \<open>Decodes v\<close>: the first value is valid JSON and fits the target, which becomes \<open>v\<close>;
    no error.  The bytes after that value are not read, so the body as a whole need not
    be well-formed JSON.
  \<^item> \<open>Mistyped v\<close>: the first value is valid JSON but some part of it has the wrong type
    for its field.  \<^verbatim>\<open>Decode\<close> stores the parts that fit, which makes the target \<open>v\<close>,
    and returns a \<^verbatim>\<open>*json.UnmarshalTypeError\<close>.
\<close>

datatype decode_error =
    io_EOF
  | io_ErrUnexpectedEOF
  | json_SyntaxError
  | json_UnmarshalTypeError

datatype 'a body =
    EmptyBody
  | Truncated
  | BrokenJSON
  | Decodes 'a
  | Mistyped 'a

text \<open>The target after the call (it held \<open>zero\<close> before) and the error returned.\<close>

fun Decode :: "'a \<Rightarrow> 'a body \<Rightarrow> 'a \<times> decode_error option" where
  "Decode zero EmptyBody = (zero, Some io_EOF)"
| "Decode zero Truncated = (zero, Some io_ErrUnexpectedEOF)"
| "Decode zero BrokenJSON = (zero, Some json_SyntaxError)"
| "Decode zero (Decodes v) = (v, None)"
| "Decode zero (Mistyped v) = (v, Some json_UnmarshalTypeError)"

text \<open>
  The errors of \<^verbatim>\<open>Decode\<close> that come back before anything is stored: the end of the body
  and the syntax error.
\<close>

fun syntax_or_EOF :: "decode_error option \<Rightarrow> bool" where
  "syntax_or_EOF (Some io_EOF) = True"
| "syntax_or_EOF (Some io_ErrUnexpectedEOF) = True"
| "syntax_or_EOF (Some json_SyntaxError) = True"
| "syntax_or_EOF (Some json_UnmarshalTypeError) = False"
| "syntax_or_EOF None = False"

text \<open>\<^verbatim>\<open>make([]byte, n)\<close> overwritten by what \<^verbatim>\<open>rand.Read\<close> delivered.\<close>

definition fill_buffer :: "nat \<Rightarrow> bytes \<Rightarrow> bytes" where
  "fill_buffer n rnd = take n rnd @ replicate (n - length rnd) 0"

definition StatusOK :: nat where "StatusOK = 200"
definition StatusCreated :: nat where "StatusCreated = 201"
definition StatusBadRequest :: nat where "StatusBadRequest = 400"
definition StatusNotAcceptable :: nat where "StatusNotAcceptable = 406"
definition StatusInternalServerError :: nat where "StatusInternalServerError = 500"
definition StatusInsufficientStorage :: nat where "StatusInsufficientStorage = 507"

definition internalServerErrorMssg :: string where
  "internalServerErrorMssg = ''could not process request at this time''"

definition insufficientStorageErrorMssg :: string where
  "insufficientStorageErrorMssg = ''could not create user at this moment''"

definition tokenGenerationErrorMssg :: string where
  "tokenGenerationErrorMssg = ''could not login user at this time''"

section \<open>The handlers\<close>

text \<open>
  \<^verbatim>\<open>handleLogin\<close>.  The result of \<^verbatim>\<open>reader.Decode(&lu)\<close> is dropped.  After a failed
  \<^verbatim>\<open>UpdateLoggedInTime\<close> the handler calls \<^verbatim>\<open>render.RespondFailure\<close> and, having no
  \<^verbatim>\<open>return\<close> there, goes on to issue the token.
\<close>

definition handleLogin :: "env \<Rightarrow> loginUserData body \<Rightarrow> event list" where
  "handleLogin env body =
     (let lu = fst (Decode loginUserData_zero body) in
      case Struct_loginUserData lu of
        Some InvalidValidationError \<Rightarrow>
          [SlogError ''error with validator definition''
             [(''error'', LogError InvalidValidationError)],
           RespondFailure StatusInternalServerError (Message internalServerErrorMssg)]
      | Some (ValidationErrors validationError) \<Rightarrow>
          [RespondValidationFailure validationError]
      | None \<Rightarrow>
          Query (Call_GetUserByName (lu_Username lu)) #
          (case GetUserByName env (lu_Username lu) of
             Inl err \<Rightarrow>
               [RespondFailure StatusBadRequest (Message ''username or password is invalid'')]
           | Inr user \<Rightarrow>
               (let hashedPassword =
                      saltyPassword (pbkdf2_Key env) (bytes_of (lu_Password lu))
                        (PasswordSalt user)
                in
                if ConstantTimeCompare hashedPassword (Password user) \<noteq> 1 then
                  [RespondFailure StatusBadRequest
                     (Message ''username or password is invalid'')]
                else
                  (let params =
                         \<lparr>lp_LastLoggedIn = \<lparr>ts_Time = time_Now env 0, ts_Valid = True\<rparr>,
                          lp_PvtID = PvtID user\<rparr>
                   in
                   Query (Call_UpdateLoggedInTime params) #
                   (case UpdateLoggedInTime env params of
                      Some err \<Rightarrow>
                        [RespondFailure StatusInsufficientStorage
                           (Message tokenGenerationErrorMssg)]
                    | None \<Rightarrow> []) @
                   (case auth_UserToToken env user of
                      Inl err \<Rightarrow>
                        [RespondFailure StatusInternalServerError
                           (Message tokenGenerationErrorMssg)]
                    | Inr token \<Rightarrow>
                        [RespondSuccess 200
                           (LoginResponse
                              \<lparr>lr_Token = token,
                               lr_TokenType = auth_TokenPrefix env,
                               lr_Username = Username user,
                               lr_DisplayName = DisplayName user,
                               lr_LastLoggedIn = LastLoggedIn user\<rparr>)])))))"

text \<open>The \<^verbatim>\<open>slog.Error\<close> of a failed creation: only when the error is a \<^verbatim>\<open>*pgconn.PgError\<close>.\<close>

fun log_create_error :: "go_error \<Rightarrow> event list" where
  "log_create_error (PgError message code constraint) =
     [SlogError ''could not create user''
        [(''error'', LogString message),
         (''code'', LogString code),
         (''constraint'', LogString constraint)]]"
| "log_create_error (OtherError m) = []"

text \<open>\<^verbatim>\<open>handleRegister\<close> of \<^verbatim>\<open>auth_handlers.go\<close>, hashing with its own \<^verbatim>\<open>saltyPassword\<close>.\<close>

definition handleRegister :: "env \<Rightarrow> registerUserData body \<Rightarrow> event list" where
  "handleRegister env body =
     (let ru = fst (Decode registerUserData_zero body) in
      case Struct_registerUserData ru of
        Some InvalidValidationError \<Rightarrow>
          [SlogError ''error with validator definition''
             [(''error'', LogError InvalidValidationError)],
           RespondFailure StatusInternalServerError (Message internalServerErrorMssg)]
      | Some (ValidationErrors validationErrors) \<Rightarrow>
          [RespondValidationFailure validationErrors]
      | None \<Rightarrow>
          Query (Call_GetUserByName (ru_Username ru)) #
          (case GetUserByName env (ru_Username ru) of
             Inr found \<Rightarrow>
               [RespondFailure StatusNotAcceptable
                  (StringMap [(''username'', ''already exists'')])]
           | Inl notFound \<Rightarrow>
               (case rand_Read env 128 of
                  Inl err \<Rightarrow>
                    [RespondFailure StatusInsufficientStorage
                       (Message insufficientStorageErrorMssg)]
                | Inr rnd \<Rightarrow>
                    (let passwordSalt = fill_buffer 128 rnd;
                         password =
                           saltyPassword (pbkdf2_Key env) (bytes_of (ru_Password ru))
                             passwordSalt;
                         params =
                           \<lparr>cp_Username = ru_Username ru,
                            cp_DisplayName = ru_DisplayName ru,
                            cp_Password = password,
                            cp_PasswordSalt = passwordSalt,
                            cp_CreatedAt = time_Now env 0,
                            cp_UpdatedAt = time_Now env 1\<rparr>
                     in
                     Query (Call_CreateUser params) #
                     (case CreateUser env params of
                        Inl err \<Rightarrow>
                          log_create_error err @
                          [RespondFailure StatusInsufficientStorage
                             (Message insufficientStorageErrorMssg)]
                      | Inr user \<Rightarrow>
                          [RespondSuccess StatusCreated
                             (RegisterResponse
                                \<lparr>rr_UserId = UserID user,
                                 rr_Username = Username user,
                                 rr_DisplayName = DisplayName user,
                                 rr_CreatedAt = CreatedAt user\<rparr>)])))))"

definition handleGetUserDetail :: "User \<Rightarrow> event list" where
  "handleGetUserDetail user =
     (let publicData = convertToPublicUser user in
      [RespondSuccess StatusOK (PublicUser publicData)])"

text \<open>
  \<^verbatim>\<open>handleCreateUser\<close> of the user router, hashing with \<^verbatim>\<open>auth.SaltyPassword\<close>.  Its
  success payload is a \<^verbatim>\<open>PublicUserDetails\<close> literal that sets four fields; the other
  two keep their zero values.
\<close>

definition handleCreateUser :: "env \<Rightarrow> createUserData body \<Rightarrow> event list" where
  "handleCreateUser env body =
     (let cu = fst (Decode createUserData_zero body) in
      case Struct_createUserData cu of
        Some InvalidValidationError \<Rightarrow>
          [SlogError ''error with validator definition''
             [(''error'', LogError InvalidValidationError)],
           RespondFailure StatusInternalServerError (Message internalServerErrorMssg)]
      | Some (ValidationErrors validationErrors) \<Rightarrow>
          [RespondValidationFailure validationErrors]
      | None \<Rightarrow>
          Query (Call_GetUserByName (cu_Username cu)) #
          (case GetUserByName env (cu_Username cu) of
             Inr found \<Rightarrow>
               [RespondFailure StatusNotAcceptable
                  (StringMap [(''username'', ''already exists'')])]
           | Inl notFound \<Rightarrow>
               (case rand_Read env 128 of
                  Inl err \<Rightarrow>
                    [RespondFailure StatusInsufficientStorage
                       (Message insufficientStorageErrorMssg)]
                | Inr rnd \<Rightarrow>
                    (let passwordSalt = fill_buffer 128 rnd;
                         password =
                           auth_SaltyPassword env (bytes_of (cu_Password cu)) passwordSalt;
                         params =
                           \<lparr>cp_Username = cu_Username cu,
                            cp_DisplayName = cu_DisplayName cu,
                            cp_Password = password,
                            cp_PasswordSalt = passwordSalt,
                            cp_CreatedAt = time_Now env 0,
                            cp_UpdatedAt = time_Now env 1\<rparr>
                     in
                     Query (Call_CreateUser params) #
                     (case CreateUser env params of
                        Inl err \<Rightarrow>
                          log_create_error err @
                          [RespondFailure StatusInsufficientStorage
                             (Message insufficientStorageErrorMssg)]
                      | Inr user \<Rightarrow>
                          [RespondSuccess StatusCreated
                             (PublicUser
                                \<lparr>pub_UserID = UserID user,
                                 pub_Username = Username user,
                                 pub_DisplayName = DisplayName user,
                                 pub_CreatedAt = CreatedAt user,
                                 pub_UpdatedAt = 0,
                                 pub_LastLoggedIn = \<lparr>ts_Time = 0, ts_Valid = False\<rparr>\<rparr>)])))))"

text \<open>
  \<^verbatim>\<open>handleUpdateUser\<close>.  \<open>user\<close> is \<^verbatim>\<open>auth.GetUserData(r)\<close>, the account the
  authentication middleware attached to the request.  The fields supplied overwrite the
  local copy of the account, which then fills the parameters of the one store call.
\<close>

definition handleUpdateUser :: "env \<Rightarrow> User \<Rightarrow> updateUserData body \<Rightarrow> event list" where
  "handleUpdateUser env user body =
     (let ud = fst (Decode emptyData body) in
      if ud = emptyData then
        [RespondSuccess StatusOK (PublicUser (convertToPublicUser user))]
      else
        (case Struct_updateUserData ud of
           Some InvalidValidationError \<Rightarrow>
             [SlogError ''error with validator definition''
                [(''error'', LogError InvalidValidationError)],
              RespondFailure StatusInternalServerError (Message internalServerErrorMssg)]
         | Some (ValidationErrors validationErrors) \<Rightarrow>
             [RespondValidationFailure validationErrors]
         | None \<Rightarrow>
             (let user1 =
                    (case ud_Password ud of
                       Some p \<Rightarrow>
                         user\<lparr>Password :=
                           auth_SaltyPassword env (bytes_of p) (PasswordSalt user)\<rparr>
                     | None \<Rightarrow> user);
                  user2 =
                    (case ud_Username ud of
                       Some n \<Rightarrow> user1\<lparr>Username := n\<rparr>
                     | None \<Rightarrow> user1);
                  user3 =
                    (case ud_DisplayName ud of
                       Some d \<Rightarrow> user2\<lparr>DisplayName := d\<rparr>
                     | None \<Rightarrow> user2);
                  params =
                    \<lparr>up_Username = Username user3,
                     up_DisplayName = DisplayName user3,
                     up_Password = Password user3,
                     up_UpdatedAt = time_Now env 0,
                     up_PvtID = PvtID user3\<rparr>
              in
              Query (Call_UpdateUserDetails params) #
              (case UpdateUserDetails env params of
                 Inl err \<Rightarrow>
                   [RespondFailure StatusInsufficientStorage
                      (Message ''could not update at this time'')]
               | Inr updUser \<Rightarrow>
                   [RespondSuccess StatusOK (PublicUser (convertToPublicUser updUser))]))))"

text \<open>\<^verbatim>\<open>handleDeleteUser\<close> hands the deleted row itself to \<^verbatim>\<open>render.RespondSuccess\<close>.\<close>

definition handleDeleteUser :: "env \<Rightarrow> User \<Rightarrow> event list" where
  "handleDeleteUser env user =
     Query (Call_DeleteUserDetails (PvtID user)) #
     (case DeleteUserDetails env (PvtID user) of
        Inl err \<Rightarrow>
          [RespondFailure StatusInternalServerError (Message ''could not delete at this time'')]
      | Inr delUser \<Rightarrow> [RespondSuccess StatusOK (DbUser delUser)])"

section \<open>Views of a run\<close>

text \<open>The username a store call writes to an existing account, if it writes one.\<close>

fun written_username :: "query \<Rightarrow> string option" where
  "written_username (Call_UpdateUserDetails p) = Some (up_Username p)"
| "written_username q = None"

definition username_writes :: "event list \<Rightarrow> string list" where
  "username_writes tr = List.map_filter written_username (queries tr)"

text \<open>The salts that the store is asked to keep for new accounts.\<close>

fun created_salt :: "query \<Rightarrow> bytes option" where
  "created_salt (Call_CreateUser p) = Some (cp_PasswordSalt p)"
| "created_salt q = None"

definition created_salts :: "event list \<Rightarrow> bytes list" where
  "created_salts tr = List.map_filter created_salt (queries tr)"

text \<open>
  The JSON objects of the two creation responses, keyed by the \<^verbatim>\<open>json:"..."\<close> tags of
  their structs.  \<^verbatim>\<open>omitempty\<close> on \<^verbatim>\<open>updated_at\<close> and \<^verbatim>\<open>last_logged_in\<close> drops nothing:
  both fields are structs, which \<^verbatim>\<open>encoding/json\<close> never counts as empty.
\<close>

datatype json =
    JString string
  | JTime Time
  | JUUID pgtype_UUID
  | JTimestamp pgtype_Timestamp

definition registerResponse_json :: "registerResponse \<Rightarrow> (string \<times> json) list" where
  "registerResponse_json r =
     [(''user_id'', JUUID (rr_UserId r)),
      (''username'', JString (rr_Username r)),
      (''display_name'', JString (rr_DisplayName r)),
      (''created_at'', JTime (rr_CreatedAt r))]"

definition PublicUserDetails_json :: "PublicUserDetails \<Rightarrow> (string \<times> json) list" where
  "PublicUserDetails_json p =
     [(''user_id'', JUUID (pub_UserID p)),
      (''username'', JString (pub_Username p)),
      (''display_name'', JString (pub_DisplayName p)),
      (''created_at'', JTime (pub_CreatedAt p)),
      (''updated_at'', JTime (pub_UpdatedAt p)),
      (''last_logged_in'', JTimestamp (pub_LastLoggedIn p))]"

text \<open>
  The four fields that \<^verbatim>\<open>PublicUserDetails\<close> shares with \<^verbatim>\<open>registerResponse\<close>, and a run
  with every \<^verbatim>\<open>PublicUserDetails\<close> success payload cut down to them.
\<close>

definition as_registerResponse :: "PublicUserDetails \<Rightarrow> registerResponse" where
  "as_registerResponse p =
     \<lparr>rr_UserId = pub_UserID p,
      rr_Username = pub_Username p,
      rr_DisplayName = pub_DisplayName p,
      rr_CreatedAt = pub_CreatedAt p\<rparr>"

fun narrow :: "event \<Rightarrow> event" where
  "narrow (RespondSuccess code (PublicUser p)) =
     RespondSuccess code (RegisterResponse (as_registerResponse p))"
| "narrow e = e"

definition as_createUserData :: "registerUserData \<Rightarrow> createUserData" where
  "as_createUserData ru =
     \<lparr>cu_Username = ru_Username ru,
      cu_DisplayName = ru_DisplayName ru,
      cu_Password = ru_Password ru\<rparr>"

text \<open>The secret fields that the responses of a run carry.\<close>

definition exposures :: "event list \<Rightarrow> string list" where
  "exposures tr = concat (map exposed (List.map_filter payload_of tr))"

section \<open>Example requests\<close>

text \<open>A stand-in key derivation for the examples: salt and password, cut to the key length.\<close>

definition demo_kdf :: kdf where
  "demo_kdf password salt iterations keyLen = take keyLen (salt @ password)"

definition alice :: User where
  "alice =
     \<lparr>PvtID = 7,
      UserID = \<lparr>uuid_Bytes = [1, 2, 3, 4], uuid_Valid = True\<rparr>,
      Username = ''alice12'',
      DisplayName = ''Alice A.'',
      Password = demo_kdf (bytes_of ''Secret123!'') [9, 9] 10000 512,
      PasswordSalt = [9, 9],
      CreatedAt = 500,
      UpdatedAt = 500,
      LastLoggedIn = \<lparr>ts_Time = 0, ts_Valid = False\<rparr>\<rparr>"

text \<open>
  A store that holds \<open>alice\<close> alone and answers every call with success; its
  \<^verbatim>\<open>UpdateUserDetails\<close> writes the parameters it is given.
\<close>

definition demo_env :: env where
  "demo_env =
     \<lparr>pbkdf2_Key = demo_kdf,
      auth_SaltyPassword = saltyPassword demo_kdf,
      auth_UserToToken = (\<lambda>u. Inr ''signed.token''),
      auth_TokenPrefix = ''Bearer'',
      rand_Read = (\<lambda>n. Inr (replicate n 170)),
      time_Now = (\<lambda>k. 1000 + int k),
      GetUserByName =
        (\<lambda>name. if name = ''alice12'' then Inr alice
                 else Inl (OtherError ''no rows in result set'')),
      CreateUser =
        (\<lambda>p. Inr \<lparr>PvtID = 8,
                   UserID = \<lparr>uuid_Bytes = [5, 6, 7, 8], uuid_Valid = True\<rparr>,
                   Username = cp_Username p,
                   DisplayName = cp_DisplayName p,
                   Password = cp_Password p,
                   PasswordSalt = cp_PasswordSalt p,
                   CreatedAt = cp_CreatedAt p,
                   UpdatedAt = cp_UpdatedAt p,
                   LastLoggedIn = \<lparr>ts_Time = 0, ts_Valid = False\<rparr>\<rparr>),
      UpdateLoggedInTime = (\<lambda>p. None),
      UpdateUserDetails =
        (\<lambda>p. Inr (alice\<lparr>Username := up_Username p,
                         DisplayName := up_DisplayName p,
                         Password := up_Password p,
                         UpdatedAt := up_UpdatedAt p\<rparr>)),
      DeleteUserDetails = (\<lambda>pvt. Inr alice)\<rparr>"

text \<open>
  The store of a lost race: the lookup finds no account, and the creation is refused
  by the unique constraint on the username.
\<close>

definition race_env :: env where
  "race_env =
     demo_env
       \<lparr>CreateUser :=
          (\<lambda>p. Inl (PgError ''duplicate key value violates unique constraint''
                       ''23505'' ''users_username_key''))\<rparr>"

text \<open>A store whose \<^verbatim>\<open>UpdateLoggedInTime\<close> fails.\<close>

definition touch_fails_env :: env where
  "touch_fails_env =
     demo_env\<lparr>UpdateLoggedInTime := (\<lambda>p. Some (OtherError ''connection reset''))\<rparr>"

definition login_alice :: loginUserData where
  "login_alice = \<lparr>lu_Username = ''alice12'', lu_Password = ''Secret123!''\<rparr>"

definition login_wrong :: loginUserData where
  "login_wrong = \<lparr>lu_Username = ''alice12'', lu_Password = ''wrongpass1''\<rparr>"

definition login_nobody :: loginUserData where
  "login_nobody = \<lparr>lu_Username = ''nobody'', lu_Password = ''anything''\<rparr>"

definition register_bobby :: registerUserData where
  "register_bobby =
     \<lparr>ru_Username = ''bobby77'',
      ru_DisplayName = ''Bobby B.'',
      ru_Password = ''Secret123!'',
      ru_ConfirmPassword = ''Secret123!''\<rparr>"

definition rename_to_bobby :: updateUserData where
  "rename_to_bobby =
     \<lparr>ud_Username = Some ''bobby77'', ud_DisplayName = None, ud_Password = None\<rparr>"

definition new_password :: updateUserData where
  "new_password =
     \<lparr>ud_Username = None, ud_DisplayName = None, ud_Password = Some ''NewSecret1!''\<rparr>"

section \<open>Unfolding rules\<close>

lemmas validator_defs =
  Struct_def validate_field_def validate_omitnil_def required_def min_runes_def
  max_runes_def printascii_def eqfield_def RuneCountInString_def

lemmas status_defs =
  StatusOK_def StatusCreated_def StatusBadRequest_def StatusNotAcceptable_def
  StatusInternalServerError_def StatusInsufficientStorage_def

section \<open>Properties of the verifier\<close>

lemma xor_fold_same: "xor_fold v x x = v"
  by (induction x arbitrary: v) simp_all

lemma ConstantTimeByteEq_zero: "ConstantTimeByteEq 0 0 = 1"
  by (simp add: ConstantTimeByteEq_def)

lemma ConstantTimeCompare_same: "ConstantTimeCompare x x = 1"
  by (simp add: ConstantTimeCompare_def xor_fold_same ConstantTimeByteEq_zero)

text \<open>
  C6.  For every password and salt, the verifier accepts the derived hash against itself:
  \<^verbatim>\<open>saltyPassword\<close> is a function of password and salt (two calls on one pair give one
  hash), and \<^verbatim>\<open>ConstantTimeCompare\<close> of a byte sequence with itself is 1.
\<close>

theorem verify_derived_hash:
  "ConstantTimeCompare (saltyPassword kdf p s) (saltyPassword kdf p s) = 1"
  by (rule ConstantTimeCompare_same)

text \<open>
  C8.  On byte sequences of unequal length the verifier returns 0, which the login
  handler reads as a failed verification (\<^verbatim>\<open>!= 1\<close>).  The length test comes before any
  byte is read, so there is no other outcome.
\<close>

theorem verify_length_mismatch:
  assumes "length candidateHash \<noteq> length storedHash"
  shows "ConstantTimeCompare candidateHash storedHash = 0
       \<and> ConstantTimeCompare candidateHash storedHash \<noteq> 1"
  using assms by (simp add: ConstantTimeCompare_def)

theorem verify_length_mismatch_witness:
  "length [1, 2, 3 :: byte] \<noteq> length [1, 2 :: byte]
   \<and> ConstantTimeCompare [1, 2, 3] [1, 2] = 0
   \<and> ConstantTimeCompare [1, 2, 3] [1, 2] \<noteq> 1"
  using verify_length_mismatch [of "[1, 2, 3]" "[1, 2]"] by simp

section \<open>Login\<close>

text \<open>
  \<^verbatim>\<open>Validate.Struct\<close> on a struct value never returns an \<^verbatim>\<open>InvalidValidationError\<close>: the
  branch of the handlers that answers 500 after validation is not taken.
\<close>

lemma Struct_not_invalid:
  "Struct_loginUserData lu \<noteq> Some InvalidValidationError"
  "Struct_registerUserData ru \<noteq> Some InvalidValidationError"
  "Struct_createUserData cu \<noteq> Some InvalidValidationError"
  "Struct_updateUserData ud \<noteq> Some InvalidValidationError"
  by (simp_all add: Struct_loginUserData_def Struct_registerUserData_def
      Struct_createUserData_def Struct_updateUserData_def Struct_def)

text \<open>
  The handlers drop the error of \<^verbatim>\<open>Decode\<close>: a run depends on the body through the value
  of the target alone.  A mistyped body is handled as the body that decodes to the same
  value.
\<close>

lemma decode_error_ignored:
  "handleLogin env lb = handleLogin env (Decodes (fst (Decode loginUserData_zero lb)))"
  "handleRegister env rb = handleRegister env (Decodes (fst (Decode registerUserData_zero rb)))"
  "handleCreateUser env cb = handleCreateUser env (Decodes (fst (Decode createUserData_zero cb)))"
  "handleUpdateUser env user ub =
     handleUpdateUser env user (Decodes (fst (Decode emptyData ub)))"
  by (simp_all only: handleLogin_def handleRegister_def handleCreateUser_def
      handleUpdateUser_def Decode.simps fst_conv)

lemma mistyped_as_decoded:
  "handleLogin env (Mistyped lu) = handleLogin env (Decodes lu)"
  "handleRegister env (Mistyped ru) = handleRegister env (Decodes ru)"
  "handleCreateUser env (Mistyped cu) = handleCreateUser env (Decodes cu)"
  "handleUpdateUser env user (Mistyped ud) = handleUpdateUser env user (Decodes ud)"
  by (simp_all only: handleLogin_def handleRegister_def handleCreateUser_def
      handleUpdateUser_def Decode.simps fst_conv)

lemma handleLogin_unknown:
  assumes "Struct_loginUserData lu = None" "GetUserByName env (lu_Username lu) = Inl err"
  shows "handleLogin env (Decodes lu) =
    [Query (Call_GetUserByName (lu_Username lu)),
     RespondFailure StatusBadRequest (Message ''username or password is invalid'')]"
  using assms by (simp add: handleLogin_def)

lemma handleLogin_mismatch:
  assumes "Struct_loginUserData lu = None" "GetUserByName env (lu_Username lu) = Inr user"
    "ConstantTimeCompare
       (saltyPassword (pbkdf2_Key env) (bytes_of (lu_Password lu)) (PasswordSalt user))
       (Password user) \<noteq> 1"
  shows "handleLogin env (Decodes lu) =
    [Query (Call_GetUserByName (lu_Username lu)),
     RespondFailure StatusBadRequest (Message ''username or password is invalid'')]"
  using assms by (simp add: handleLogin_def)

text \<open>
  A stored hash whose length differs from the derived one is a mismatch like any other:
  the request ends with the invalid-credentials response.
\<close>

lemma handleLogin_length_mismatch:
  assumes "Struct_loginUserData lu = None" "GetUserByName env (lu_Username lu) = Inr user"
    "length (saltyPassword (pbkdf2_Key env) (bytes_of (lu_Password lu)) (PasswordSalt user))
       \<noteq> length (Password user)"
  shows "handleLogin env (Decodes lu) =
    [Query (Call_GetUserByName (lu_Username lu)),
     RespondFailure StatusBadRequest (Message ''username or password is invalid'')]"
  using assms by (simp add: handleLogin_mismatch ConstantTimeCompare_def)

lemma handleLogin_verified:
  assumes "Struct_loginUserData lu = None" "GetUserByName env (lu_Username lu) = Inr user"
    "ConstantTimeCompare
       (saltyPassword (pbkdf2_Key env) (bytes_of (lu_Password lu)) (PasswordSalt user))
       (Password user) = 1"
  shows "handleLogin env (Decodes lu) =
    Query (Call_GetUserByName (lu_Username lu)) #
    Query (Call_UpdateLoggedInTime
      \<lparr>lp_LastLoggedIn = \<lparr>ts_Time = time_Now env 0, ts_Valid = True\<rparr>,
       lp_PvtID = PvtID user\<rparr>) #
    (case UpdateLoggedInTime env
        \<lparr>lp_LastLoggedIn = \<lparr>ts_Time = time_Now env 0, ts_Valid = True\<rparr>,
         lp_PvtID = PvtID user\<rparr> of
       Some err \<Rightarrow> [RespondFailure StatusInsufficientStorage (Message tokenGenerationErrorMssg)]
     | None \<Rightarrow> []) @
    (case auth_UserToToken env user of
       Inl err \<Rightarrow> [RespondFailure StatusInternalServerError (Message tokenGenerationErrorMssg)]
     | Inr token \<Rightarrow>
         [RespondSuccess 200
            (LoginResponse
               \<lparr>lr_Token = token, lr_TokenType = auth_TokenPrefix env,
                lr_Username = Username user, lr_DisplayName = DisplayName user,
                lr_LastLoggedIn = LastLoggedIn user\<rparr>)])"
  using assms by (simp add: handleLogin_def Let_def)

lemma login_alice_valid: "Struct_loginUserData login_alice = None"
  by (simp add: Struct_loginUserData_def login_alice_def validator_defs)

lemma login_wrong_valid: "Struct_loginUserData login_wrong = None"
  by (simp add: Struct_loginUserData_def login_wrong_def validator_defs)

lemma login_nobody_valid: "Struct_loginUserData login_nobody = None"
  by (simp add: Struct_loginUserData_def login_nobody_def validator_defs)

lemma alice_hash_wrong:
  "ConstantTimeCompare (saltyPassword demo_kdf (bytes_of ''wrongpass1'') (PasswordSalt alice))
     (Password alice) = 0"
  by (simp add: ConstantTimeCompare_def saltyPassword_def demo_kdf_def alice_def bytes_of_def
      ConstantTimeByteEq_def)

lemma alice_hash_right:
  "ConstantTimeCompare (saltyPassword demo_kdf (bytes_of ''Secret123!'') (PasswordSalt alice))
     (Password alice) = 1"
  by (simp add: ConstantTimeCompare_def saltyPassword_def demo_kdf_def alice_def bytes_of_def
      ConstantTimeByteEq_def)

text \<open>
  C4.  A login that names a username without an account and a login that names an
  account with a wrong password (both with input that passes validation) get the same
  response: 400 with the message "username or password is invalid".
\<close>

theorem login_no_account_oracle:
  assumes "Struct_loginUserData lu1 = None" and "Struct_loginUserData lu2 = None"
    and "GetUserByName env (lu_Username lu1) = Inl notFound"
    and "GetUserByName env (lu_Username lu2) = Inr user"
    and "ConstantTimeCompare
       (saltyPassword (pbkdf2_Key env) (bytes_of (lu_Password lu2)) (PasswordSalt user))
       (Password user) \<noteq> 1"
  shows "responses (handleLogin env (Decodes lu1)) =
           [RespondFailure StatusBadRequest (Message ''username or password is invalid'')]
       \<and> responses (handleLogin env (Decodes lu2)) =
           responses (handleLogin env (Decodes lu1))"
  using assms by (simp add: handleLogin_unknown handleLogin_mismatch responses_def)

theorem login_no_account_oracle_witness:
  "Struct_loginUserData login_nobody = None \<and> Struct_loginUserData login_wrong = None
   \<and> GetUserByName demo_env (lu_Username login_nobody) = Inl (OtherError ''no rows in result set'')
   \<and> GetUserByName demo_env (lu_Username login_wrong) = Inr alice
   \<and> ConstantTimeCompare
       (saltyPassword (pbkdf2_Key demo_env) (bytes_of (lu_Password login_wrong)) (PasswordSalt alice))
       (Password alice) \<noteq> 1
   \<and> responses (handleLogin demo_env (Decodes login_nobody)) =
           [RespondFailure StatusBadRequest (Message ''username or password is invalid'')]
   \<and> responses (handleLogin demo_env (Decodes login_wrong)) =
           responses (handleLogin demo_env (Decodes login_nobody))"
proof -
  have a: "GetUserByName demo_env (lu_Username login_nobody) = Inl (OtherError ''no rows in result set'')"
    by (simp add: demo_env_def login_nobody_def)
  have b: "GetUserByName demo_env (lu_Username login_wrong) = Inr alice"
    by (simp add: demo_env_def login_wrong_def)
  have c: "ConstantTimeCompare
       (saltyPassword (pbkdf2_Key demo_env) (bytes_of (lu_Password login_wrong)) (PasswordSalt alice))
       (Password alice) \<noteq> 1"
    using alice_hash_wrong by (simp add: demo_env_def login_wrong_def)
  show ?thesis
    using login_no_account_oracle [OF login_nobody_valid login_wrong_valid a b c]
      login_nobody_valid login_wrong_valid a b c by simp
qed

text \<open>
  C5.  The login of \<open>alice\<close> with her password, against a store whose
  \<^verbatim>\<open>UpdateLoggedInTime\<close> fails: the handler writes the failure response 507 and then,
  on the same response writer, the success response with the token.  It logs nothing.
\<close>

theorem login_touch_failure_responds_twice:
  "handleLogin touch_fails_env (Decodes login_alice) =
     [Query (Call_GetUserByName ''alice12''),
      Query (Call_UpdateLoggedInTime
        \<lparr>lp_LastLoggedIn = \<lparr>ts_Time = 1000, ts_Valid = True\<rparr>, lp_PvtID = 7\<rparr>),
      RespondFailure 507 (Message ''could not login user at this time''),
      RespondSuccess 200
        (LoginResponse
           \<lparr>lr_Token = ''signed.token'', lr_TokenType = ''Bearer'',
            lr_Username = ''alice12'', lr_DisplayName = ''Alice A.'',
            lr_LastLoggedIn = \<lparr>ts_Time = 0, ts_Valid = False\<rparr>\<rparr>)]"
proof -
  have b: "GetUserByName touch_fails_env (lu_Username login_alice) = Inr alice"
    by (simp add: touch_fails_env_def demo_env_def login_alice_def)
  have c: "ConstantTimeCompare
       (saltyPassword (pbkdf2_Key touch_fails_env) (bytes_of (lu_Password login_alice))
          (PasswordSalt alice))
       (Password alice) = 1"
    using alice_hash_right by (simp add: touch_fails_env_def demo_env_def login_alice_def)
  show ?thesis
    unfolding handleLogin_verified [OF login_alice_valid b c]
    by (simp add: touch_fails_env_def demo_env_def alice_def login_alice_def
        StatusInsufficientStorage_def tokenGenerationErrorMssg_def)
qed

section \<open>Account creation\<close>

lemma handleRegister_create_failed:
  assumes "Struct_registerUserData ru = None"
    and "GetUserByName env (ru_Username ru) = Inl notFound"
    and "rand_Read env 128 = Inr rnd"
    and "CreateUser env
           \<lparr>cp_Username = ru_Username ru,
            cp_DisplayName = ru_DisplayName ru,
            cp_Password =
              saltyPassword (pbkdf2_Key env) (bytes_of (ru_Password ru)) (fill_buffer 128 rnd),
            cp_PasswordSalt = fill_buffer 128 rnd,
            cp_CreatedAt = time_Now env 0,
            cp_UpdatedAt = time_Now env 1\<rparr> = Inl err"
  shows "handleRegister env (Decodes ru) =
    [Query (Call_GetUserByName (ru_Username ru)),
     Query (Call_CreateUser
       \<lparr>cp_Username = ru_Username ru,
        cp_DisplayName = ru_DisplayName ru,
        cp_Password =
          saltyPassword (pbkdf2_Key env) (bytes_of (ru_Password ru)) (fill_buffer 128 rnd),
        cp_PasswordSalt = fill_buffer 128 rnd,
        cp_CreatedAt = time_Now env 0,
        cp_UpdatedAt = time_Now env 1\<rparr>)] @
    log_create_error err @
    [RespondFailure StatusInsufficientStorage (Message insufficientStorageErrorMssg)]"
  using assms by (simp add: handleRegister_def Let_def)

lemma handleRegister_created:
  assumes "Struct_registerUserData ru = None"
    and "GetUserByName env (ru_Username ru) = Inl notFound"
    and "rand_Read env 128 = Inr rnd"
    and "CreateUser env
           \<lparr>cp_Username = ru_Username ru,
            cp_DisplayName = ru_DisplayName ru,
            cp_Password =
              saltyPassword (pbkdf2_Key env) (bytes_of (ru_Password ru)) (fill_buffer 128 rnd),
            cp_PasswordSalt = fill_buffer 128 rnd,
            cp_CreatedAt = time_Now env 0,
            cp_UpdatedAt = time_Now env 1\<rparr> = Inr user"
  shows "responses (handleRegister env (Decodes ru)) =
    [RespondSuccess StatusCreated
       (RegisterResponse
          \<lparr>rr_UserId = UserID user, rr_Username = Username user,
           rr_DisplayName = DisplayName user, rr_CreatedAt = CreatedAt user\<rparr>)]"
  using assms by (simp add: handleRegister_def Let_def responses_def)

lemma handleCreateUser_created:
  assumes "Struct_createUserData cu = None"
    and "GetUserByName env (cu_Username cu) = Inl notFound"
    and "rand_Read env 128 = Inr rnd"
    and "CreateUser env
           \<lparr>cp_Username = cu_Username cu,
            cp_DisplayName = cu_DisplayName cu,
            cp_Password =
              auth_SaltyPassword env (bytes_of (cu_Password cu)) (fill_buffer 128 rnd),
            cp_PasswordSalt = fill_buffer 128 rnd,
            cp_CreatedAt = time_Now env 0,
            cp_UpdatedAt = time_Now env 1\<rparr> = Inr user"
  shows "responses (handleCreateUser env (Decodes cu)) =
    [RespondSuccess StatusCreated
       (PublicUser
          \<lparr>pub_UserID = UserID user, pub_Username = Username user,
           pub_DisplayName = DisplayName user, pub_CreatedAt = CreatedAt user,
           pub_UpdatedAt = 0, pub_LastLoggedIn = \<lparr>ts_Time = 0, ts_Valid = False\<rparr>\<rparr>)]"
  using assms by (simp add: handleCreateUser_def Let_def responses_def)

lemma handleCreateUser_create_failed:
  assumes "Struct_createUserData cu = None"
    and "GetUserByName env (cu_Username cu) = Inl notFound"
    and "rand_Read env 128 = Inr rnd"
    and "CreateUser env
           \<lparr>cp_Username = cu_Username cu,
            cp_DisplayName = cu_DisplayName cu,
            cp_Password =
              auth_SaltyPassword env (bytes_of (cu_Password cu)) (fill_buffer 128 rnd),
            cp_PasswordSalt = fill_buffer 128 rnd,
            cp_CreatedAt = time_Now env 0,
            cp_UpdatedAt = time_Now env 1\<rparr> = Inl err"
  shows "responses (handleCreateUser env (Decodes cu)) =
    [RespondFailure StatusInsufficientStorage (Message insufficientStorageErrorMssg)]"
proof -
  have "filter is_response (log_create_error err) = []"
    by (cases err) simp_all
  with assms show ?thesis
    by (simp add: handleCreateUser_def Let_def responses_def)
qed

lemma register_bobby_valid: "Struct_registerUserData register_bobby = None"
  by (simp add: Struct_registerUserData_def register_bobby_def validator_defs)

lemma length_fill_buffer: "length (fill_buffer n rnd) = n"
  by (simp add: fill_buffer_def)

lemma first_failed_None: "first_failed cs = None \<longleftrightarrow> list_all snd cs"
  by (induction cs rule: first_failed.induct) simp_all

lemma validate_field_Nil: "validate_field name cs = [] \<longleftrightarrow> list_all snd cs"
  by (simp add: validate_field_def first_failed_None [symmetric] split: option.splits)

lemma Struct_None: "Struct errs = None \<longleftrightarrow> errs = []"
  by (simp add: Struct_def)

lemma register_validation:
  "Struct_registerUserData ru = None \<longleftrightarrow>
     Struct_createUserData (as_createUserData ru) = None
     \<and> ru_ConfirmPassword ru = ru_Password ru"
  by (auto simp add: Struct_registerUserData_def Struct_createUserData_def as_createUserData_def
      Struct_None validate_field_Nil required_def eqfield_def)

lemma race_env_lookup: "GetUserByName race_env (ru_Username register_bobby) =
    Inl (OtherError ''no rows in result set'')"
  by (simp add: race_env_def demo_env_def register_bobby_def)

lemma race_env_rand: "rand_Read race_env 128 = Inr (replicate 128 170)"
  by (simp add: race_env_def demo_env_def)

lemma race_env_create: "CreateUser race_env p =
    Inl (PgError ''duplicate key value violates unique constraint'' ''23505'' ''users_username_key'')"
  by (simp add: race_env_def demo_env_def)

text \<open>
  C2, as the code has it.  A registration that passes validation and the lookup, and
  whose \<^verbatim>\<open>CreateUser\<close> fails with any error (a unique-constraint violation included),
  is answered with the generic creation failure: 507, "could not create user at this
  moment".
\<close>

theorem register_conflict_is_generic_failure:
  assumes "Struct_registerUserData ru = None"
    and "GetUserByName env (ru_Username ru) = Inl notFound"
    and "rand_Read env 128 = Inr rnd"
    and "CreateUser env
           \<lparr>cp_Username = ru_Username ru,
            cp_DisplayName = ru_DisplayName ru,
            cp_Password =
              saltyPassword (pbkdf2_Key env) (bytes_of (ru_Password ru)) (fill_buffer 128 rnd),
            cp_PasswordSalt = fill_buffer 128 rnd,
            cp_CreatedAt = time_Now env 0,
            cp_UpdatedAt = time_Now env 1\<rparr> = Inl err"
  shows "responses (handleRegister env (Decodes ru)) =
           [RespondFailure StatusInsufficientStorage (Message insufficientStorageErrorMssg)]"
proof -
  have "responses (log_create_error err) = []"
    by (cases err) (simp_all add: responses_def)
  then show ?thesis
    unfolding handleRegister_create_failed [OF assms]
    by (simp add: responses_def)
qed

theorem register_conflict_is_generic_failure_witness:
  "Struct_registerUserData register_bobby = None
   \<and> GetUserByName race_env (ru_Username register_bobby) =
       Inl (OtherError ''no rows in result set'')
   \<and> rand_Read race_env 128 = Inr (replicate 128 170)
   \<and> CreateUser race_env
           \<lparr>cp_Username = ru_Username register_bobby,
            cp_DisplayName = ru_DisplayName register_bobby,
            cp_Password =
              saltyPassword (pbkdf2_Key race_env) (bytes_of (ru_Password register_bobby))
                (fill_buffer 128 (replicate 128 170)),
            cp_PasswordSalt = fill_buffer 128 (replicate 128 170),
            cp_CreatedAt = time_Now race_env 0,
            cp_UpdatedAt = time_Now race_env 1\<rparr> =
       Inl (PgError ''duplicate key value violates unique constraint'' ''23505''
              ''users_username_key'')
   \<and> responses (handleRegister race_env (Decodes register_bobby)) =
           [RespondFailure StatusInsufficientStorage (Message insufficientStorageErrorMssg)]"
  using register_conflict_is_generic_failure
    [OF register_bobby_valid race_env_lookup race_env_rand race_env_create]
    register_bobby_valid race_env_lookup race_env_rand race_env_create
  by simp

text \<open>
  C2, as stated, fails: the registration that loses the race for the username
  \<open>bobby77\<close> is not answered with "username already exists" (406) but with the generic
  failure (507).
\<close>

theorem register_conflict_not_username_taken:
  "responses (handleRegister race_env (Decodes register_bobby)) \<noteq>
     [RespondFailure StatusNotAcceptable (StringMap [(''username'', ''already exists'')])]
   \<and> responses (handleRegister race_env (Decodes register_bobby)) =
     [RespondFailure StatusInsufficientStorage (Message ''could not create user at this moment'')]"
proof -
  have "handleRegister race_env (Decodes register_bobby) =
    [Query (Call_GetUserByName (ru_Username register_bobby)),
     Query (Call_CreateUser
       \<lparr>cp_Username = ru_Username register_bobby,
        cp_DisplayName = ru_DisplayName register_bobby,
        cp_Password =
          saltyPassword (pbkdf2_Key race_env) (bytes_of (ru_Password register_bobby))
            (fill_buffer 128 (replicate 128 170)),
        cp_PasswordSalt = fill_buffer 128 (replicate 128 170),
        cp_CreatedAt = time_Now race_env 0,
        cp_UpdatedAt = time_Now race_env 1\<rparr>)] @
    log_create_error (PgError ''duplicate key value violates unique constraint'' ''23505''
              ''users_username_key'') @
    [RespondFailure StatusInsufficientStorage (Message insufficientStorageErrorMssg)]"
    by (rule handleRegister_create_failed
        [OF register_bobby_valid race_env_lookup race_env_rand race_env_create])
  then show ?thesis
    by (simp add: responses_def insufficientStorageErrorMssg_def status_defs)
qed

section \<open>The two creation handlers\<close>

lemma json_as_registerResponse:
  "PublicUserDetails_json p =
     registerResponse_json (as_registerResponse p) @
     [(''updated_at'', JTime (pub_UpdatedAt p)),
      (''last_logged_in'', JTimestamp (pub_LastLoggedIn p))]"
  by (simp add: PublicUserDetails_json_def registerResponse_json_def as_registerResponse_def)

lemma narrow_log_create_error: "map narrow (log_create_error err) = log_create_error err"
  by (cases err) simp_all

lemma queries_simps:
  "queries [] = []"
  "queries (Query q # tr) = q # queries tr"
  "queries (RespondSuccess code p # tr) = queries tr"
  "queries (RespondFailure code p # tr) = queries tr"
  "queries (RespondValidationFailure ve # tr) = queries tr"
  "queries (SlogError m kv # tr) = queries tr"
  by (simp_all add: queries_def)

lemma queries_append: "queries (a @ b) = queries a @ queries b"
  by (induction a) (simp_all add: queries_def split: option.splits)

lemma queries_log_create_error: "queries (log_create_error err) = []"
  by (cases err) (simp_all add: queries_simps)

lemma demo_env_lookup: "GetUserByName demo_env (ru_Username register_bobby) =
    Inl (OtherError ''no rows in result set'')"
  by (simp add: demo_env_def register_bobby_def)

lemma demo_env_rand: "rand_Read demo_env 128 = Inr (replicate 128 170)"
  by (simp add: demo_env_def)

lemma create_bobby_valid: "Struct_createUserData (as_createUserData register_bobby) = None"
  using register_bobby_valid by (simp add: register_validation)

text \<open>
  What the two creation handlers share.  On input that both accept (the input of
  \<^verbatim>\<open>handleCreateUser\<close> passes validation and the confirmation equals the password), and
  when \<^verbatim>\<open>auth.SaltyPassword\<close> computes what \<^verbatim>\<open>saltyPassword\<close> computes, the run of
  \<^verbatim>\<open>handleCreateUser\<close> is the run of \<^verbatim>\<open>handleRegister\<close> once its success payload is cut
  down to the four fields of \<^verbatim>\<open>registerResponse\<close>: the same store calls with the same
  parameters (a 128-byte salt among them), the same log lines, the same failure
  responses.
\<close>

lemma creation_runs_agree_but_for_payload:
  assumes "Struct_createUserData (as_createUserData ru) = None"
    and "ru_ConfirmPassword ru = ru_Password ru"
    and "auth_SaltyPassword env = saltyPassword (pbkdf2_Key env)"
  shows "map narrow (handleCreateUser env (Decodes (as_createUserData ru))) =
           handleRegister env (Decodes ru)"
    and "list_all (\<lambda>salt. length salt = 128)
           (created_salts (handleRegister env (Decodes ru)))"
proof -
  have valid: "Struct_registerUserData ru = None"
    using assms(1,2) by (simp add: register_validation)
  have cu: "cu_Username (as_createUserData ru) = ru_Username ru"
    "cu_DisplayName (as_createUserData ru) = ru_DisplayName ru"
    "cu_Password (as_createUserData ru) = ru_Password ru"
    by (simp_all add: as_createUserData_def)
  show "map narrow (handleCreateUser env (Decodes (as_createUserData ru))) =
           handleRegister env (Decodes ru)"
    using assms(1,3) valid
    by (simp add: handleCreateUser_def handleRegister_def Let_def cu narrow_log_create_error
        as_registerResponse_def split: sum.splits)
  show "list_all (\<lambda>salt. length salt = 128)
           (created_salts (handleRegister env (Decodes ru)))"
    using valid
    by (simp add: handleRegister_def Let_def created_salts_def queries_simps queries_append
        queries_log_create_error length_fill_buffer split: sum.splits)
qed

text \<open>
  C10.  The two creation handlers do not give the same success response.  For the
  accepted input \<open>register_bobby\<close> and one store, \<^verbatim>\<open>handleRegister\<close> answers 201 with a
  \<^verbatim>\<open>registerResponse\<close>, whose JSON object has the keys \<^verbatim>\<open>user_id\<close>, \<^verbatim>\<open>username\<close>,
  \<^verbatim>\<open>display_name\<close> and \<^verbatim>\<open>created_at\<close>; \<^verbatim>\<open>handleCreateUser\<close> answers 201 with a
  \<^verbatim>\<open>PublicUserDetails\<close> that sets the same four fields, whose JSON object has the keys
  \<^verbatim>\<open>updated_at\<close> and \<^verbatim>\<open>last_logged_in\<close> as well, at their zero values.
\<close>

theorem register_create_responses_differ:
  "responses (handleRegister demo_env (Decodes register_bobby)) =
     [RespondSuccess StatusCreated
        (RegisterResponse
           \<lparr>rr_UserId = \<lparr>uuid_Bytes = [5, 6, 7, 8], uuid_Valid = True\<rparr>,
            rr_Username = ''bobby77'', rr_DisplayName = ''Bobby B.'',
            rr_CreatedAt = 1000\<rparr>)]
   \<and> responses (handleCreateUser demo_env (Decodes (as_createUserData register_bobby))) =
     [RespondSuccess StatusCreated
        (PublicUser
           \<lparr>pub_UserID = \<lparr>uuid_Bytes = [5, 6, 7, 8], uuid_Valid = True\<rparr>,
            pub_Username = ''bobby77'', pub_DisplayName = ''Bobby B.'',
            pub_CreatedAt = 1000, pub_UpdatedAt = 0,
            pub_LastLoggedIn = \<lparr>ts_Time = 0, ts_Valid = False\<rparr>\<rparr>)]
   \<and> responses (handleRegister demo_env (Decodes register_bobby)) \<noteq>
     responses (handleCreateUser demo_env (Decodes (as_createUserData register_bobby)))
   \<and> map fst
       (registerResponse_json
          \<lparr>rr_UserId = \<lparr>uuid_Bytes = [5, 6, 7, 8], uuid_Valid = True\<rparr>,
           rr_Username = ''bobby77'', rr_DisplayName = ''Bobby B.'',
           rr_CreatedAt = 1000\<rparr>) =
     [''user_id'', ''username'', ''display_name'', ''created_at'']
   \<and> map fst
       (PublicUserDetails_json
          \<lparr>pub_UserID = \<lparr>uuid_Bytes = [5, 6, 7, 8], uuid_Valid = True\<rparr>,
           pub_Username = ''bobby77'', pub_DisplayName = ''Bobby B.'',
           pub_CreatedAt = 1000, pub_UpdatedAt = 0,
           pub_LastLoggedIn = \<lparr>ts_Time = 0, ts_Valid = False\<rparr>\<rparr>) =
     [''user_id'', ''username'', ''display_name'', ''created_at'', ''updated_at'',
      ''last_logged_in'']"
proof -
  have cu: "cu_Username (as_createUserData register_bobby) = ru_Username register_bobby"
    by (simp add: as_createUserData_def)
  have r: "responses (handleRegister demo_env (Decodes register_bobby)) =
     [RespondSuccess StatusCreated
        (RegisterResponse
           \<lparr>rr_UserId = \<lparr>uuid_Bytes = [5, 6, 7, 8], uuid_Valid = True\<rparr>,
            rr_Username = ''bobby77'', rr_DisplayName = ''Bobby B.'',
            rr_CreatedAt = 1000\<rparr>)]"
    by (subst handleRegister_created
        [OF register_bobby_valid demo_env_lookup demo_env_rand, where user =
          "\<lparr>PvtID = 8, UserID = \<lparr>uuid_Bytes = [5, 6, 7, 8], uuid_Valid = True\<rparr>,
            Username = ''bobby77'', DisplayName = ''Bobby B.'',
            Password = saltyPassword demo_kdf (bytes_of ''Secret123!'')
              (fill_buffer 128 (replicate 128 170)),
            PasswordSalt = fill_buffer 128 (replicate 128 170),
            CreatedAt = 1000, UpdatedAt = 1001,
            LastLoggedIn = \<lparr>ts_Time = 0, ts_Valid = False\<rparr>\<rparr>"])
      (simp_all add: demo_env_def register_bobby_def)
  have c: "responses (handleCreateUser demo_env (Decodes (as_createUserData register_bobby))) =
     [RespondSuccess StatusCreated
        (PublicUser
           \<lparr>pub_UserID = \<lparr>uuid_Bytes = [5, 6, 7, 8], uuid_Valid = True\<rparr>,
            pub_Username = ''bobby77'', pub_DisplayName = ''Bobby B.'',
            pub_CreatedAt = 1000, pub_UpdatedAt = 0,
            pub_LastLoggedIn = \<lparr>ts_Time = 0, ts_Valid = False\<rparr>\<rparr>)]"
    by (subst handleCreateUser_created
        [OF create_bobby_valid demo_env_lookup [folded cu] demo_env_rand, where user =
          "\<lparr>PvtID = 8, UserID = \<lparr>uuid_Bytes = [5, 6, 7, 8], uuid_Valid = True\<rparr>,
            Username = ''bobby77'', DisplayName = ''Bobby B.'',
            Password = saltyPassword demo_kdf (bytes_of ''Secret123!'')
              (fill_buffer 128 (replicate 128 170)),
            PasswordSalt = fill_buffer 128 (replicate 128 170),
            CreatedAt = 1000, UpdatedAt = 1001,
            LastLoggedIn = \<lparr>ts_Time = 0, ts_Valid = False\<rparr>\<rparr>"])
      (simp_all add: demo_env_def register_bobby_def as_createUserData_def)
  show ?thesis
    unfolding r c by (simp add: registerResponse_json_def PublicUserDetails_json_def)
qed

section \<open>Update\<close>

lemma handleUpdateUser_valid:
  assumes "ud \<noteq> emptyData" and "Struct_updateUserData ud = None"
  shows "handleUpdateUser env user (Decodes ud) =
    Query (Call_UpdateUserDetails
      \<lparr>up_Username = (case ud_Username ud of Some n \<Rightarrow> n | None \<Rightarrow> Username user),
       up_DisplayName = (case ud_DisplayName ud of Some d \<Rightarrow> d | None \<Rightarrow> DisplayName user),
       up_Password =
         (case ud_Password ud of
            Some p \<Rightarrow> auth_SaltyPassword env (bytes_of p) (PasswordSalt user)
          | None \<Rightarrow> Password user),
       up_UpdatedAt = time_Now env 0,
       up_PvtID = PvtID user\<rparr>) #
    (case UpdateUserDetails env
        \<lparr>up_Username = (case ud_Username ud of Some n \<Rightarrow> n | None \<Rightarrow> Username user),
         up_DisplayName = (case ud_DisplayName ud of Some d \<Rightarrow> d | None \<Rightarrow> DisplayName user),
         up_Password =
           (case ud_Password ud of
              Some p \<Rightarrow> auth_SaltyPassword env (bytes_of p) (PasswordSalt user)
            | None \<Rightarrow> Password user),
         up_UpdatedAt = time_Now env 0,
         up_PvtID = PvtID user\<rparr> of
       Inl err \<Rightarrow>
         [RespondFailure StatusInsufficientStorage (Message ''could not update at this time'')]
     | Inr updUser \<Rightarrow> [RespondSuccess StatusOK (PublicUser (convertToPublicUser updUser))])"
  using assms
  by (simp add: handleUpdateUser_def Let_def split: option.splits)

lemma handleUpdateUser_empty:
  "handleUpdateUser env user (Decodes emptyData) =
     [RespondSuccess StatusOK (PublicUser (convertToPublicUser user))]"
  by (simp add: handleUpdateUser_def)

lemma handleUpdateUser_invalid:
  assumes "ud \<noteq> emptyData" and "Struct_updateUserData ud = Some (ValidationErrors ve)"
  shows "handleUpdateUser env user (Decodes ud) = [RespondValidationFailure ve]"
  using assms by (simp add: handleUpdateUser_def)

lemma Struct_updateUserData_cases:
  "Struct_updateUserData ud = None \<or> (\<exists>ve. Struct_updateUserData ud = Some (ValidationErrors ve))"
  by (simp add: Struct_updateUserData_def Struct_def)

lemma new_password_valid: "Struct_updateUserData new_password = None"
  by (simp add: Struct_updateUserData_def new_password_def validator_defs)

lemma new_password_field: "ud_Password new_password = Some ''NewSecret1!''"
  by (simp add: new_password_def)

text \<open>
  C7.  An update that supplies a password (and passes validation) makes one store call,
  \<^verbatim>\<open>UpdateUserDetails\<close>, whose password is \<^verbatim>\<open>auth.SaltyPassword\<close> of the new password
  and the salt already stored with the account, and which carries the username and
  display name changes of the same request.  The call has no salt parameter and the
  handler draws no random bytes: the salt stays.
\<close>

theorem update_password_rehash:
  assumes "ud_Password ud = Some p" and "Struct_updateUserData ud = None"
  shows "queries (handleUpdateUser env user (Decodes ud)) =
    [Call_UpdateUserDetails
      \<lparr>up_Username = (case ud_Username ud of Some n \<Rightarrow> n | None \<Rightarrow> Username user),
       up_DisplayName = (case ud_DisplayName ud of Some d \<Rightarrow> d | None \<Rightarrow> DisplayName user),
       up_Password = auth_SaltyPassword env (bytes_of p) (PasswordSalt user),
       up_UpdatedAt = time_Now env 0,
       up_PvtID = PvtID user\<rparr>]"
proof -
  from assms(1) have ne: "ud \<noteq> emptyData"
    by (auto simp add: emptyData_def)
  show ?thesis
    unfolding handleUpdateUser_valid [OF ne assms(2)]
    by (simp add: queries_simps assms(1) split: sum.splits)
qed

theorem update_password_rehash_witness:
  "ud_Password new_password = Some ''NewSecret1!''
   \<and> Struct_updateUserData new_password = None
   \<and> queries (handleUpdateUser demo_env alice (Decodes new_password)) =
    [Call_UpdateUserDetails
      \<lparr>up_Username = ''alice12'',
       up_DisplayName = ''Alice A.'',
       up_Password = saltyPassword demo_kdf (bytes_of ''NewSecret1!'') [9, 9],
       up_UpdatedAt = 1000,
       up_PvtID = 7\<rparr>]"
  using update_password_rehash [OF new_password_field new_password_valid, of demo_env alice]
    new_password_field new_password_valid
  by (simp add: new_password_def demo_env_def alice_def)

section \<open>The username of an account\<close>

lemma username_writes_simps:
  "username_writes [] = []"
  "username_writes (Query (Call_UpdateUserDetails p) # tr) = up_Username p # username_writes tr"
  "username_writes (Query (Call_GetUserByName n) # tr) = username_writes tr"
  "username_writes (Query (Call_CreateUser cp) # tr) = username_writes tr"
  "username_writes (Query (Call_UpdateLoggedInTime lp) # tr) = username_writes tr"
  "username_writes (Query (Call_DeleteUserDetails pvt) # tr) = username_writes tr"
  "username_writes (RespondSuccess code pl # tr) = username_writes tr"
  "username_writes (RespondFailure code pl # tr) = username_writes tr"
  "username_writes (RespondValidationFailure ve # tr) = username_writes tr"
  "username_writes (SlogError m kv # tr) = username_writes tr"
  by (simp_all add: username_writes_def queries_def)

lemma username_writes_append:
  "username_writes (a @ b) = username_writes a @ username_writes b"
  by (simp add: username_writes_def queries_append List.map_filter_def)

lemma username_writes_log_create_error: "username_writes (log_create_error err) = []"
  by (cases err) (simp_all add: username_writes_simps)

lemma username_writes_handleLogin: "username_writes (handleLogin env body) = []"
  by (simp add: handleLogin_def Let_def username_writes_simps username_writes_append
      split: option.splits validation_error.splits sum.splits)

lemma username_writes_handleRegister: "username_writes (handleRegister env body) = []"
  by (simp add: handleRegister_def Let_def username_writes_simps username_writes_append
      username_writes_log_create_error
      split: option.splits validation_error.splits sum.splits)

lemma username_writes_handleCreateUser: "username_writes (handleCreateUser env body) = []"
  by (simp add: handleCreateUser_def Let_def username_writes_simps username_writes_append
      username_writes_log_create_error
      split: option.splits validation_error.splits sum.splits)

lemma username_writes_handleGetUserDetail: "username_writes (handleGetUserDetail user) = []"
  by (simp add: handleGetUserDetail_def username_writes_simps)

lemma username_writes_handleDeleteUser: "username_writes (handleDeleteUser env user) = []"
  by (simp add: handleDeleteUser_def username_writes_simps split: sum.splits)

lemma username_writes_handleUpdateUser:
  "username_writes (handleUpdateUser env user body) =
     (let ud = fst (Decode emptyData body) in
      if ud \<noteq> emptyData \<and> Struct_updateUserData ud = None
      then [case ud_Username ud of Some n \<Rightarrow> n | None \<Rightarrow> Username user]
      else [])"
proof -
  define ud where "ud = fst (Decode emptyData body)"
  have run: "handleUpdateUser env user body = handleUpdateUser env user (Decodes ud)"
    unfolding ud_def by (rule decode_error_ignored)
  have "username_writes (handleUpdateUser env user (Decodes ud)) =
     (if ud \<noteq> emptyData \<and> Struct_updateUserData ud = None
      then [case ud_Username ud of Some n \<Rightarrow> n | None \<Rightarrow> Username user]
      else [])"
  proof (cases "ud = emptyData")
    case True
    then show ?thesis by (simp add: handleUpdateUser_empty username_writes_simps)
  next
    case ne: False
    from Struct_updateUserData_cases [of ud] show ?thesis
    proof
      assume v: "Struct_updateUserData ud = None"
      show ?thesis
        unfolding handleUpdateUser_valid [OF ne v]
        using ne v by (simp add: username_writes_simps split: sum.splits)
    next
      assume "\<exists>ve. Struct_updateUserData ud = Some (ValidationErrors ve)"
      then obtain ve where v: "Struct_updateUserData ud = Some (ValidationErrors ve)" ..
      show ?thesis
        unfolding handleUpdateUser_invalid [OF ne v]
        using ne v by (simp add: username_writes_simps)
    qed
  qed
  then show ?thesis
    unfolding run by (simp add: Let_def ud_def)
qed

lemma rename_to_bobby_valid: "Struct_updateUserData rename_to_bobby = None"
  by (simp add: Struct_updateUserData_def rename_to_bobby_def validator_defs)

text \<open>
  C3, as the code has it.  No handler but \<^verbatim>\<open>handleUpdateUser\<close> issues a store call that
  writes the username of an existing account.  \<^verbatim>\<open>handleUpdateUser\<close> issues one when the
  request supplies some field and passes validation; the username it writes is the one
  supplied, and the account's own when the request supplies none.
\<close>

theorem username_written_by_update_only:
  "username_writes (handleLogin env lb) = []
   \<and> username_writes (handleRegister env rb) = []
   \<and> username_writes (handleCreateUser env cb) = []
   \<and> username_writes (handleGetUserDetail user) = []
   \<and> username_writes (handleDeleteUser env user) = []
   \<and> username_writes (handleUpdateUser env user ub) =
       (let ud = fst (Decode emptyData ub) in
        if ud \<noteq> emptyData \<and> Struct_updateUserData ud = None
        then [case ud_Username ud of Some n \<Rightarrow> n | None \<Rightarrow> Username user]
        else [])"
  by (simp only: username_writes_handleLogin username_writes_handleRegister
      username_writes_handleCreateUser username_writes_handleGetUserDetail
      username_writes_handleDeleteUser username_writes_handleUpdateUser simp_thms)

text \<open>
  C3, as stated, fails: the update that supplies the username \<open>bobby77\<close> for the account
  \<open>alice12\<close> asks the store to write \<open>bobby77\<close>, and the response shows the renamed
  account.
\<close>

theorem update_changes_username:
  "Username alice = ''alice12''
   \<and> username_writes (handleUpdateUser demo_env alice (Decodes rename_to_bobby)) = [''bobby77'']
   \<and> responses (handleUpdateUser demo_env alice (Decodes rename_to_bobby)) =
       [RespondSuccess StatusOK
          (PublicUser
             \<lparr>pub_UserID = \<lparr>uuid_Bytes = [1, 2, 3, 4], uuid_Valid = True\<rparr>,
              pub_Username = ''bobby77'', pub_DisplayName = ''Alice A.'',
              pub_CreatedAt = 500, pub_UpdatedAt = 1000,
              pub_LastLoggedIn = \<lparr>ts_Time = 0, ts_Valid = False\<rparr>\<rparr>)]"
proof -
  have ne: "rename_to_bobby \<noteq> emptyData"
    by (simp add: rename_to_bobby_def emptyData_def)
  show ?thesis
    unfolding handleUpdateUser_valid [OF ne rename_to_bobby_valid]
    by (simp add: username_writes_simps responses_def rename_to_bobby_def demo_env_def
        alice_def convertToPublicUser_def)
qed

section \<open>Bodies that do not decode\<close>

lemma zero_input_responses:
  "handleLogin env (Decodes loginUserData_zero) =
     [RespondValidationFailure
        [\<lparr>fe_Field = ''Username'', fe_Tag = ''required''\<rparr>,
         \<lparr>fe_Field = ''Password'', fe_Tag = ''required''\<rparr>]]"
  "handleRegister env (Decodes registerUserData_zero) =
     [RespondValidationFailure
        [\<lparr>fe_Field = ''Username'', fe_Tag = ''required''\<rparr>,
         \<lparr>fe_Field = ''DisplayName'', fe_Tag = ''required''\<rparr>,
         \<lparr>fe_Field = ''Password'', fe_Tag = ''required''\<rparr>,
         \<lparr>fe_Field = ''ConfirmPassword'', fe_Tag = ''required''\<rparr>]]"
  "handleCreateUser env (Decodes createUserData_zero) =
     [RespondValidationFailure
        [\<lparr>fe_Field = ''Username'', fe_Tag = ''required''\<rparr>,
         \<lparr>fe_Field = ''DisplayName'', fe_Tag = ''required''\<rparr>,
         \<lparr>fe_Field = ''Password'', fe_Tag = ''required''\<rparr>]]"
  by (simp_all add: handleLogin_def handleRegister_def handleCreateUser_def
      loginUserData_zero_def registerUserData_zero_def createUserData_zero_def
      Struct_loginUserData_def Struct_registerUserData_def Struct_createUserData_def
      Struct_def validate_field_def required_def)

lemma syntax_or_EOF_stores_nothing:
  assumes "syntax_or_EOF (snd (Decode zero b))"
  shows "fst (Decode zero b) = zero"
  using assms by (cases b) simp_all

text \<open>
  C9, as the code has it.  When \<^verbatim>\<open>Decode\<close> fails on the body with a syntax error or at
  the end of the body (the body is empty, ends inside its first JSON value, or that value
  is not well-formed), the login, register and create handlers ignore the error and
  answer with the validation failure of the zero-valued input, one \<^verbatim>\<open>required\<close>
  violation per required field.  The update handler ignores the error as well, finds the
  input equal to the empty update and answers with success and the current public
  profile.
\<close>

theorem undecodable_body:
  "(syntax_or_EOF (snd (Decode loginUserData_zero lb)) \<longrightarrow>
      handleLogin env lb =
        [RespondValidationFailure
           [\<lparr>fe_Field = ''Username'', fe_Tag = ''required''\<rparr>,
            \<lparr>fe_Field = ''Password'', fe_Tag = ''required''\<rparr>]])
   \<and> (syntax_or_EOF (snd (Decode registerUserData_zero rb)) \<longrightarrow>
      handleRegister env rb =
        [RespondValidationFailure
           [\<lparr>fe_Field = ''Username'', fe_Tag = ''required''\<rparr>,
            \<lparr>fe_Field = ''DisplayName'', fe_Tag = ''required''\<rparr>,
            \<lparr>fe_Field = ''Password'', fe_Tag = ''required''\<rparr>,
            \<lparr>fe_Field = ''ConfirmPassword'', fe_Tag = ''required''\<rparr>]])
   \<and> (syntax_or_EOF (snd (Decode createUserData_zero cb)) \<longrightarrow>
      handleCreateUser env cb =
        [RespondValidationFailure
           [\<lparr>fe_Field = ''Username'', fe_Tag = ''required''\<rparr>,
            \<lparr>fe_Field = ''DisplayName'', fe_Tag = ''required''\<rparr>,
            \<lparr>fe_Field = ''Password'', fe_Tag = ''required''\<rparr>]])
   \<and> (syntax_or_EOF (snd (Decode emptyData ub)) \<longrightarrow>
      handleUpdateUser env user ub =
        [RespondSuccess StatusOK (PublicUser (convertToPublicUser user))])"
proof (intro conjI impI)
  assume "syntax_or_EOF (snd (Decode loginUserData_zero lb))"
  then have "fst (Decode loginUserData_zero lb) = loginUserData_zero"
    by (rule syntax_or_EOF_stores_nothing)
  with decode_error_ignored(1) [of env lb]
  show "handleLogin env lb =
        [RespondValidationFailure
           [\<lparr>fe_Field = ''Username'', fe_Tag = ''required''\<rparr>,
            \<lparr>fe_Field = ''Password'', fe_Tag = ''required''\<rparr>]]"
    by (simp add: zero_input_responses)
next
  assume "syntax_or_EOF (snd (Decode registerUserData_zero rb))"
  then have "fst (Decode registerUserData_zero rb) = registerUserData_zero"
    by (rule syntax_or_EOF_stores_nothing)
  with decode_error_ignored(2) [of env rb]
  show "handleRegister env rb =
        [RespondValidationFailure
           [\<lparr>fe_Field = ''Username'', fe_Tag = ''required''\<rparr>,
            \<lparr>fe_Field = ''DisplayName'', fe_Tag = ''required''\<rparr>,
            \<lparr>fe_Field = ''Password'', fe_Tag = ''required''\<rparr>,
            \<lparr>fe_Field = ''ConfirmPassword'', fe_Tag = ''required''\<rparr>]]"
    by (simp add: zero_input_responses)
next
  assume "syntax_or_EOF (snd (Decode createUserData_zero cb))"
  then have "fst (Decode createUserData_zero cb) = createUserData_zero"
    by (rule syntax_or_EOF_stores_nothing)
  with decode_error_ignored(3) [of env cb]
  show "handleCreateUser env cb =
        [RespondValidationFailure
           [\<lparr>fe_Field = ''Username'', fe_Tag = ''required''\<rparr>,
            \<lparr>fe_Field = ''DisplayName'', fe_Tag = ''required''\<rparr>,
            \<lparr>fe_Field = ''Password'', fe_Tag = ''required''\<rparr>]]"
    by (simp add: zero_input_responses)
next
  assume "syntax_or_EOF (snd (Decode emptyData ub))"
  then have "fst (Decode emptyData ub) = emptyData"
    by (rule syntax_or_EOF_stores_nothing)
  with decode_error_ignored(4) [of env user ub]
  show "handleUpdateUser env user ub =
        [RespondSuccess StatusOK (PublicUser (convertToPublicUser user))]"
    by (simp add: handleUpdateUser_empty)
qed

theorem undecodable_body_witness:
  "syntax_or_EOF (snd (Decode loginUserData_zero EmptyBody))
   \<and> syntax_or_EOF (snd (Decode registerUserData_zero Truncated))
   \<and> syntax_or_EOF (snd (Decode createUserData_zero BrokenJSON))
   \<and> syntax_or_EOF (snd (Decode emptyData BrokenJSON))
   \<and> handleLogin demo_env EmptyBody =
        [RespondValidationFailure
           [\<lparr>fe_Field = ''Username'', fe_Tag = ''required''\<rparr>,
            \<lparr>fe_Field = ''Password'', fe_Tag = ''required''\<rparr>]]
   \<and> handleRegister demo_env Truncated =
        [RespondValidationFailure
           [\<lparr>fe_Field = ''Username'', fe_Tag = ''required''\<rparr>,
            \<lparr>fe_Field = ''DisplayName'', fe_Tag = ''required''\<rparr>,
            \<lparr>fe_Field = ''Password'', fe_Tag = ''required''\<rparr>,
            \<lparr>fe_Field = ''ConfirmPassword'', fe_Tag = ''required''\<rparr>]]
   \<and> handleCreateUser demo_env BrokenJSON =
        [RespondValidationFailure
           [\<lparr>fe_Field = ''Username'', fe_Tag = ''required''\<rparr>,
            \<lparr>fe_Field = ''DisplayName'', fe_Tag = ''required''\<rparr>,
            \<lparr>fe_Field = ''Password'', fe_Tag = ''required''\<rparr>]]
   \<and> handleUpdateUser demo_env alice BrokenJSON =
        [RespondSuccess StatusOK (PublicUser (convertToPublicUser alice))]"
  using undecodable_body
    [of EmptyBody demo_env Truncated BrokenJSON BrokenJSON alice]
  by simp

text \<open>
  C9, as stated, fails for the update handler: the answer to a body with a syntax error
  (and to an empty body) is the success response 200, and no validation failure is
  rendered.
\<close>

theorem undecodable_update_succeeds:
  "handleUpdateUser demo_env alice BrokenJSON =
     [RespondSuccess 200
        (PublicUser
           \<lparr>pub_UserID = \<lparr>uuid_Bytes = [1, 2, 3, 4], uuid_Valid = True\<rparr>,
            pub_Username = ''alice12'', pub_DisplayName = ''Alice A.'',
            pub_CreatedAt = 500, pub_UpdatedAt = 500,
            pub_LastLoggedIn = \<lparr>ts_Time = 0, ts_Valid = False\<rparr>\<rparr>)]
   \<and> handleUpdateUser demo_env alice EmptyBody = handleUpdateUser demo_env alice BrokenJSON
   \<and> list_all (\<lambda>e. case e of RespondValidationFailure ve \<Rightarrow> False | _ \<Rightarrow> True)
       (handleUpdateUser demo_env alice BrokenJSON)"
  by (simp add: handleUpdateUser_def convertToPublicUser_def alice_def StatusOK_def)

section \<open>Secrets in responses\<close>

lemma exposures_simps:
  "exposures [] = []"
  "exposures (Query q # tr) = exposures tr"
  "exposures (RespondSuccess code p # tr) = exposed p @ exposures tr"
  "exposures (RespondFailure code p # tr) = exposed p @ exposures tr"
  "exposures (RespondValidationFailure ve # tr) = exposures tr"
  "exposures (SlogError m kv # tr) = exposures tr"
  by (simp_all add: exposures_def)

lemma exposures_append: "exposures (a @ b) = exposures a @ exposures b"
  by (simp add: exposures_def List.map_filter_def)

lemma exposures_log_create_error: "exposures (log_create_error err) = []"
  by (cases err) (simp_all add: exposures_simps)

lemma exposed_simps:
  "exposed (LoginResponse lr) = []"
  "exposed (RegisterResponse rr) = []"
  "exposed (PublicUser pu) = []"
  "exposed (Message m) = []"
  "exposed (StringMap kv) = []"
  "exposed (DbUser u) = [''PvtID'', ''Password'', ''PasswordSalt'']"
  by (simp_all add: exposed_def secret_fields_def)

lemma converted_responses_hide_secrets:
  "exposures (handleLogin env lb) = []"
  "exposures (handleRegister env rb) = []"
  "exposures (handleCreateUser env cb) = []"
  "exposures (handleGetUserDetail user) = []"
  "exposures (handleUpdateUser env user ub) = []"
  by (simp_all add: handleLogin_def handleRegister_def handleCreateUser_def
      handleGetUserDetail_def handleUpdateUser_def Let_def exposures_simps exposures_append
      exposures_log_create_error exposed_simps
      split: option.splits validation_error.splits sum.splits)

text \<open>
  C1.  The delete handler hands the deleted \<^verbatim>\<open>database.User\<close> row to the renderer as it
  is: the success payload of deleting \<open>alice\<close> carries her private identifier, password
  hash and salt.  The other handlers answer with \<^verbatim>\<open>loginResponse\<close>, \<^verbatim>\<open>registerResponse\<close>
  or \<^verbatim>\<open>PublicUserDetails\<close> values, which have no such field
  (\<open>converted_responses_hide_secrets\<close>).
\<close>

theorem delete_response_carries_row:
  "handleDeleteUser demo_env alice =
     [Query (Call_DeleteUserDetails 7), RespondSuccess 200 (DbUser alice)]
   \<and> exposures (handleDeleteUser demo_env alice) = [''PvtID'', ''Password'', ''PasswordSalt'']
   \<and> Password alice = [9, 9, 83, 101, 99, 114, 101, 116, 49, 50, 51, 33]
   \<and> PasswordSalt alice = [9, 9]
   \<and> PvtID alice = 7"
  by (simp add: handleDeleteUser_def demo_env_def exposures_simps exposed_simps StatusOK_def,
      simp add: alice_def demo_kdf_def bytes_of_def)

end
